theory Spec2Isabelle
  imports Complex_Main
begin

section \<open>Exception classes and exceptions\<close>

text \<open>
  A Python exception class is its name together with its base classes. The clause
  \<^verbatim>\<open>except exceptions:\<close> of \<^verbatim>\<open>wrapper\<close> does not compare classes for equality: it asks
  whether the class of the raised exception is one of the listed classes or derives from
  one of them, through any number of bases. \<open>issubclass\<close> is that test.
\<close>

datatype exc_class = Cls (cls_name: string) (cls_bases: "exc_class list")

fun issubclass :: "exc_class \<Rightarrow> exc_class \<Rightarrow> bool" where
  "issubclass (Cls n bs) d = (Cls n bs = d \<or> (\<exists>b \<in> set bs. issubclass b d))"

text \<open>The built-in classes the demonstration and the log file can raise.\<close>

definition BaseException :: exc_class where
  "BaseException = Cls ''BaseException'' []"

definition Exception :: exc_class where
  "Exception = Cls ''Exception'' [BaseException]"

definition ArithmeticError :: exc_class where
  "ArithmeticError = Cls ''ArithmeticError'' [Exception]"

definition ZeroDivisionError :: exc_class where
  "ZeroDivisionError = Cls ''ZeroDivisionError'' [ArithmeticError]"

definition TypeError :: exc_class where
  "TypeError = Cls ''TypeError'' [Exception]"

definition OSError :: exc_class where
  "OSError = Cls ''OSError'' [Exception]"

definition PermissionError :: exc_class where
  "PermissionError = Cls ''PermissionError'' [OSError]"

definition KeyboardInterrupt :: exc_class where
  "KeyboardInterrupt = Cls ''KeyboardInterrupt'' [BaseException]"

text \<open>
  An exception object: its class, its message, and the exception that was being handled
  when it was raised (Python's \<^verbatim>\<open>__context__\<close>), if any.
\<close>

datatype exn = Exn (exn_class: exc_class) (exn_msg: string) (exn_context: "exn option")

text \<open>
  An exception \<open>e'\<close> that leaves the \<^verbatim>\<open>except\<close> block handling \<open>e\<close>. Python sets the
  context of an exception, when it is raised, to the exception being handled at that
  moment. The first error raised inside the block therefore gets \<open>e\<close> as its context; an
  error raised while that one is dealt with (a second failure when the file is closed)
  gets the first as its context, and so on. \<open>e'\<close> is the last of them, with the errors
  before it as its context chain, and \<open>e\<close> goes to the end of that chain. The class and the
  message of \<open>e'\<close> stay as they are.
\<close>

fun raised_while_handling :: "exn \<Rightarrow> exn \<Rightarrow> exn" where
  "raised_while_handling (Exn c msg None) e = Exn c msg (Some e)"
| "raised_while_handling (Exn c msg (Some e0)) e = Exn c msg (Some (raised_while_handling e0 e))"

text \<open>\<open>x\<close> is the context of \<open>e\<close>, or the context of its context, and so on.\<close>

fun in_context_chain :: "exn \<Rightarrow> exn \<Rightarrow> bool" where
  "in_context_chain x (Exn c msg None) = False"
| "in_context_chain x (Exn c msg (Some e0)) = (x = e0 \<or> in_context_chain x e0)"

text \<open>\<^verbatim>\<open>except exceptions:\<close> for a tuple of classes.\<close>

definition except_matches :: "exn \<Rightarrow> exc_class list \<Rightarrow> bool" where
  "except_matches e exceptions = (\<exists>c \<in> set exceptions. issubclass (exn_class e) c)"

section \<open>Values and outcomes\<close>

text \<open>
  The Python values the demonstration passes around. A float is the real number it
  denotes: division is exact in the model, so a quotient agrees with CPython's wherever
  the exact quotient is a double (as for \<open>10 / 2\<close> and \<open>5 / 2\<close>); rounding, infinities
  and overflow are not modelled.
\<close>

datatype pyval = PyNone | PyInt int | PyFloat real | PyStr string | PyList "pyval list"

text \<open>A call either returns a value or raises.\<close>

datatype 'a outcome = Returns 'a | Raises exn

section \<open>The state: ExceptionHandler objects and the file system\<close>

text \<open>The two attributes \<^verbatim>\<open>__init__\<close> gives an \<^verbatim>\<open>ExceptionHandler\<close>.\<close>

record ExceptionHandler =
  return_message :: string
  log_file :: string

text \<open>
  \<open>handlers\<close> holds the attributes of the \<^verbatim>\<open>ExceptionHandler\<close> object at each reference;
  they are ordinary Python attributes and can be assigned to at any time.
  \<open>files\<close> is the content of every file, \<open>opened\<close> the files held open for writing.
  Whether \<^verbatim>\<open>open(path, "w")\<close> fails, and whether writing the text (including the flush
  when the file is closed) fails and after how many characters, is the environment's
  business: \<open>open_fault\<close> and \<open>write_fault\<close> record it per path. The exception of a
  \<open>write_fault\<close> is the one that leaves the \<^verbatim>\<open>with\<close> block, with the earlier I/O errors
  of the same write, if any, as its context.
\<close>

record world =
  handlers :: "nat \<Rightarrow> ExceptionHandler"
  files :: "string \<Rightarrow> string option"
  opened :: "string list"
  open_fault :: "string \<Rightarrow> exn option"
  write_fault :: "string \<Rightarrow> (exn \<times> nat) option"

text \<open>
  The state a program starts in: no handler has been constructed (every reference holds
  empty attributes), there are no files, and every file can be opened and written.
\<close>

definition fresh_world :: world where
  "fresh_world =
     \<lparr>handlers = (\<lambda>r. \<lparr>return_message = [], log_file = []\<rparr>),
      files = (\<lambda>p. None), opened = [], open_fault = (\<lambda>p. None),
      write_fault = (\<lambda>p. None)\<rparr>"

text \<open>\<^verbatim>\<open>open(path, "w")\<close>: creates or truncates the file.\<close>

definition open_w :: "string \<Rightarrow> world \<Rightarrow> unit outcome \<times> world" where
  "open_w path s =
     (case open_fault s path of
        Some e \<Rightarrow> (Raises e, s)
      | None \<Rightarrow> (Returns (), s\<lparr>files := (files s)(path \<mapsto> ''''), opened := path # opened s\<rparr>))"

text \<open>Writing text to an open file appends it to what the file holds.\<close>

definition append_text :: "string \<Rightarrow> string \<Rightarrow> world \<Rightarrow> world" where
  "append_text path txt s =
     s\<lparr>files := (files s)(path \<mapsto> (case files s path of None \<Rightarrow> txt | Some old \<Rightarrow> old @ txt))\<rparr>"

definition write_text :: "string \<Rightarrow> string \<Rightarrow> world \<Rightarrow> unit outcome \<times> world" where
  "write_text path txt s =
     (case write_fault s path of
        Some (e, n) \<Rightarrow> (Raises e, append_text path (take n txt) s)
      | None \<Rightarrow> (Returns (), append_text path txt s))"

definition close_file :: "string \<Rightarrow> world \<Rightarrow> world" where
  "close_file path s = s\<lparr>opened := remove1 path (opened s)\<rparr>"

section \<open>ExceptionHandler\<close>

text \<open>\<^verbatim>\<open>__init__\<close>, for the new object at reference \<open>self\<close>.\<close>

definition ExceptionHandler_init :: "nat \<Rightarrow> string \<Rightarrow> string \<Rightarrow> world \<Rightarrow> world" where
  "ExceptionHandler_init self return_message' log_file' s =
     s\<lparr>handlers := (handlers s)(self := \<lparr>return_message = return_message', log_file = log_file'\<rparr>)\<rparr>"

text \<open>
  \<^verbatim>\<open>wrapper\<close>, the closure that \<^verbatim>\<open>decorator(func)\<close> returns. Its free variables are
  \<^verbatim>\<open>exceptions\<close>, \<^verbatim>\<open>log_file\<close>, \<^verbatim>\<open>return_message\<close> and \<^verbatim>\<open>func\<close>; \<open>print_exc\<close> is the text
  \<^verbatim>\<open>traceback.print_exc\<close> produces for the exception being handled. The \<^verbatim>\<open>with\<close> block
  closes the file on every way out; an exception raised by \<^verbatim>\<open>open\<close> or by the write leaves
  the \<^verbatim>\<open>except\<close> block with the original exception at the end of its context chain.
\<close>

definition wrapper ::
  "(exn \<Rightarrow> string) \<Rightarrow> exc_class list \<Rightarrow> string \<Rightarrow> string \<Rightarrow>
   ('a \<Rightarrow> world \<Rightarrow> pyval outcome \<times> world) \<Rightarrow> 'a \<Rightarrow> world \<Rightarrow> pyval outcome \<times> world" where
  "wrapper print_exc exceptions log_file' return_message' func args s =
     (case func args s of
        (Returns v, s1) \<Rightarrow> (Returns v, s1)
      | (Raises e, s1) \<Rightarrow>
          if except_matches e exceptions then
            (case open_w log_file' s1 of
               (Raises e1, s2) \<Rightarrow> (Raises (raised_while_handling e1 e), s2)
             | (Returns _, s2) \<Rightarrow>
                 (case write_text log_file' (print_exc e) s2 of
                    (Raises e2, s3) \<Rightarrow>
                      (Raises (raised_while_handling e2 e), close_file log_file' s3)
                  | (Returns _, s3) \<Rightarrow>
                      (Returns (PyStr return_message'), close_file log_file' s3)))
          else (Raises e, s1))"

text \<open>
  \<^verbatim>\<open>exception_handler_decorator\<close>, called on the object at reference \<open>self\<close> in the state
  \<open>s0\<close>: an omitted argument is \<^verbatim>\<open>None\<close>. The two assignments that resolve the defaults
  are the first statements of the method, so \<^verbatim>\<open>self.log_file\<close> and \<^verbatim>\<open>self.return_message\<close>
  are read in \<open>s0\<close>, before \<^verbatim>\<open>decorator\<close> is built; the method changes nothing. The result,
  applied to \<open>func\<close>, is \<^verbatim>\<open>decorator(func)\<close>, which is later called in a state of its own.
\<close>

definition exception_handler_decorator ::
  "(exn \<Rightarrow> string) \<Rightarrow> nat \<Rightarrow> exc_class list \<Rightarrow> string option \<Rightarrow> string option \<Rightarrow> world \<Rightarrow>
   ('a \<Rightarrow> world \<Rightarrow> pyval outcome \<times> world) \<Rightarrow> 'a \<Rightarrow> world \<Rightarrow> pyval outcome \<times> world" where
  "exception_handler_decorator print_exc self exceptions return_message_arg log_file_arg s0 =
     (let log_file' =
            (case log_file_arg of None \<Rightarrow> log_file (handlers s0 self) | Some l \<Rightarrow> l);
          return_message' =
            (case return_message_arg of
               None \<Rightarrow> return_message (handlers s0 self)
             | Some m \<Rightarrow> m)
      in wrapper print_exc exceptions log_file' return_message')"

section \<open>The demonstration: \<^verbatim>\<open>div_array\<close>\<close>

text \<open>The name Python prints for the type of a value.\<close>

fun type_name :: "pyval \<Rightarrow> string" where
  "type_name PyNone = ''NoneType''"
| "type_name (PyInt _) = ''int''"
| "type_name (PyFloat _) = ''float''"
| "type_name (PyStr _) = ''str''"
| "type_name (PyList _) = ''list''"

fun number :: "pyval \<Rightarrow> real option" where
  "number (PyInt i) = Some (of_int i)"
| "number (PyFloat r) = Some r"
| "number _ = None"

text \<open>A name between single quotes, as error messages show it.\<close>

definition quoted :: "string \<Rightarrow> string" where
  "quoted s = CHR 0x27 # s @ [CHR 0x27]"

fun is_int :: "pyval \<Rightarrow> bool" where
  "is_int (PyInt _) = True"
| "is_int _ = False"

text \<open>
  \<^verbatim>\<open>lambda x, y: x / y\<close>: true division of two numbers, which raises for a zero divisor;
  operands that are not numbers have no \<^verbatim>\<open>/\<close>. The message texts are CPython's and play no
  part in what a guard does.
\<close>

definition truediv :: "pyval \<Rightarrow> pyval \<Rightarrow> pyval outcome" where
  "truediv x y =
     (case (number x, number y) of
        (Some a, Some b) \<Rightarrow>
          if b = 0 then
            Raises (Exn ZeroDivisionError
              (if is_int x \<and> is_int y then ''division by zero''
               else ''float division by zero'')
              None)
          else Returns (PyFloat (a / b))
      | _ \<Rightarrow>
          Raises (Exn TypeError
            (''unsupported operand type(s) for /: '' @ quoted (type_name x) @ '' and ''
               @ quoted (type_name y))
            None))"

text \<open>\<^verbatim>\<open>iter(x)\<close>, run to the end: the elements of a list, the characters of a string.\<close>

fun py_iter :: "pyval \<Rightarrow> pyval list outcome" where
  "py_iter (PyList xs) = Returns xs"
| "py_iter (PyStr cs) = Returns (map (\<lambda>c. PyStr [c]) cs)"
| "py_iter v = Raises (Exn TypeError ''reduce() arg 2 must support iteration'' None)"

text \<open>\<^verbatim>\<open>functools.reduce(function, iterable)\<close> with no initial value.\<close>

fun reduce_from :: "(pyval \<Rightarrow> pyval \<Rightarrow> pyval outcome) \<Rightarrow> pyval \<Rightarrow> pyval list \<Rightarrow> pyval outcome" where
  "reduce_from f acc [] = Returns acc"
| "reduce_from f acc (y # ys) =
     (case f acc y of Raises e \<Rightarrow> Raises e | Returns v \<Rightarrow> reduce_from f v ys)"

definition reduce :: "(pyval \<Rightarrow> pyval \<Rightarrow> pyval outcome) \<Rightarrow> pyval \<Rightarrow> pyval outcome" where
  "reduce f iterable =
     (case py_iter iterable of
        Raises e \<Rightarrow> Raises e
      | Returns [] \<Rightarrow>
          Raises (Exn TypeError ''reduce() of empty iterable with no initial value'' None)
      | Returns (x # xs) \<Rightarrow> reduce_from f x xs)"

text \<open>The undecorated body of \<^verbatim>\<open>div_array\<close>; it touches no file.\<close>

definition div_array_body :: "pyval \<Rightarrow> world \<Rightarrow> pyval outcome \<times> world" where
  "div_array_body num_array s = (reduce truediv num_array, s)"

text \<open>
  \<^verbatim>\<open>example\<close> is what the program runs: it starts in \<open>fresh_world\<close>, constructs
  \<^verbatim>\<open>exc_handler\<close> (the first object, at reference \<open>0\<close>) and decorates \<^verbatim>\<open>div_array\<close> in the
  state that leaves.
\<close>

definition exc_handler :: nat where
  "exc_handler = 0"

definition example_world :: world where
  "example_world =
     ExceptionHandler_init exc_handler ''Unexpected error, seek help.''
       ''default_error_log.txt'' fresh_world"

text \<open>
  \<^verbatim>\<open>div_array\<close> as \<^verbatim>\<open>example\<close> decorates it: the decorator written last, next to the
  function, is applied first.
\<close>

definition div_array :: "(exn \<Rightarrow> string) \<Rightarrow> pyval \<Rightarrow> world \<Rightarrow> pyval outcome \<times> world" where
  "div_array print_exc =
     exception_handler_decorator print_exc exc_handler [Exception] None None example_world
       (exception_handler_decorator print_exc exc_handler [TypeError]
          (Some ''Type Error ocurred! Please check the data types and try again.'')
          (Some ''typeerror.txt'') example_world
          (exception_handler_decorator print_exc exc_handler [ZeroDivisionError]
             (Some ''Division by 0 is impossible!'')
             (Some ''zerodivisionerror.txt'') example_world
             div_array_body))"

section \<open>Chains of guards\<close>

text \<open>
  The three variables a \<^verbatim>\<open>wrapper\<close> closes over, and a stack of decorators as the list of
  those triples, the one next to the function first.
\<close>

record guard =
  guard_exceptions :: "exc_class list"
  guard_return_message :: string
  guard_log_file :: string

fun chain ::
  "(exn \<Rightarrow> string) \<Rightarrow> guard list \<Rightarrow> ('a \<Rightarrow> world \<Rightarrow> pyval outcome \<times> world) \<Rightarrow>
   'a \<Rightarrow> world \<Rightarrow> pyval outcome \<times> world" where
  "chain print_exc [] func = func"
| "chain print_exc (g # gs) func =
     chain print_exc gs
       (wrapper print_exc (guard_exceptions g) (guard_log_file g) (guard_return_message g) func)"

text \<open>
  Two readings of ``the guard's set covers the exception'': the test the \<^verbatim>\<open>except\<close> clause
  makes, and plain membership of the exception's class in the tuple.
\<close>

definition guard_matches :: "exn \<Rightarrow> guard \<Rightarrow> bool" where
  "guard_matches e g = except_matches e (guard_exceptions g)"

definition guard_lists :: "exn \<Rightarrow> guard \<Rightarrow> bool" where
  "guard_lists e g = (exn_class e \<in> set (guard_exceptions g))"

definition zero_division_guard :: guard where
  "zero_division_guard =
     \<lparr>guard_exceptions = [ZeroDivisionError],
      guard_return_message = ''Division by 0 is impossible!'',
      guard_log_file = ''zerodivisionerror.txt''\<rparr>"

definition type_error_guard :: guard where
  "type_error_guard =
     \<lparr>guard_exceptions = [TypeError],
      guard_return_message = ''Type Error ocurred! Please check the data types and try again.'',
      guard_log_file = ''typeerror.txt''\<rparr>"

definition default_guard :: guard where
  "default_guard =
     \<lparr>guard_exceptions = [Exception],
      guard_return_message = ''Unexpected error, seek help.'',
      guard_log_file = ''default_error_log.txt''\<rparr>"

section \<open>Concrete environments\<close>

text \<open>A trace format, and a file system where a given path cannot be opened.\<close>

definition plain_trace :: "exn \<Rightarrow> string" where
  "plain_trace e = cls_name (exn_class e) @ '': '' @ exn_msg e"

definition permission_denied :: exn where
  "permission_denied = Exn PermissionError ''[Errno 13] Permission denied'' None"

definition locked_world :: "string \<Rightarrow> world" where
  "locked_world path =
     fresh_world\<lparr>open_fault := (\<lambda>p. if p = path then Some permission_denied else None)\<rparr>"

text \<open>
  A full disk: the write fails when the buffer is flushed, and again when the file is
  closed, so the error that leaves the \<^verbatim>\<open>with\<close> block has the first one as its context.
\<close>

definition no_space :: exn where
  "no_space = Exn OSError ''[Errno 28] No space left on device'' None"

definition no_space_on_close :: exn where
  "no_space_on_close = Exn OSError ''[Errno 28] No space left on device'' (Some no_space)"

definition full_disk_world :: "string \<Rightarrow> nat \<Rightarrow> world" where
  "full_disk_world path n =
     fresh_world\<lparr>write_fault := (\<lambda>p. if p = path then Some (no_space_on_close, n) else None)\<rparr>"

text \<open>
  The state after \<^verbatim>\<open>example\<close> has decorated \<^verbatim>\<open>div_array\<close> and both attributes of
  \<^verbatim>\<open>exc_handler\<close> have then been assigned new values.
\<close>

definition reassigned_world :: world where
  "reassigned_world =
     example_world\<lparr>handlers := (handlers example_world)
       (exc_handler := \<lparr>return_message = ''changed'', log_file = ''changed.txt''\<rparr>)\<rparr>"

text \<open>
  A callable that reads the file its guard logs to: \<^verbatim>\<open>open("flaky.log").read()\<close> raises
  \<^verbatim>\<open>FileNotFoundError\<close> while the file is missing and returns its text once it is there.
\<close>

definition FileNotFoundError :: exc_class where
  "FileNotFoundError = Cls ''FileNotFoundError'' [OSError]"

definition file_not_found :: exn where
  "file_not_found = Exn FileNotFoundError ''[Errno 2] No such file or directory'' None"

definition flaky :: "unit \<Rightarrow> world \<Rightarrow> pyval outcome \<times> world" where
  "flaky args s =
     (case files s ''flaky.log'' of
        None \<Rightarrow> (Raises file_not_found, s)
      | Some txt \<Rightarrow> (Returns (PyStr txt), s))"

text \<open>
  A callable is blind to files, at given arguments, when its outcome is the same in any
  two states that agree on which files can be opened and written, and it leaves that
  unchanged. What the files hold, and what a guard has written, then makes no difference
  to it.
\<close>

definition file_blind :: "('a \<Rightarrow> world \<Rightarrow> pyval outcome \<times> world) \<Rightarrow> 'a \<Rightarrow> bool" where
  "file_blind func args =
     (\<forall>s s'. open_fault s = open_fault s' \<and> write_fault s = write_fault s' \<longrightarrow>
        fst (func args s) = fst (func args s')
        \<and> open_fault (snd (func args s)) = open_fault s
        \<and> write_fault (snd (func args s)) = write_fault s)"

text \<open>A file system where the log of the innermost guard already holds text.\<close>

definition stale_world :: world where
  "stale_world =
     fresh_world\<lparr>files := (files fresh_world)(''zerodivisionerror.txt'' \<mapsto> ''old text'')\<rparr>"

text \<open>The two exceptions the demonstration's body raises.\<close>

definition division_by_zero :: exn where
  "division_by_zero = Exn ZeroDivisionError ''division by zero'' None"

definition not_iterable :: exn where
  "not_iterable = Exn TypeError ''reduce() arg 2 must support iteration'' None"

text \<open>What \<^verbatim>\<open>"1" / 2\<close> raises.\<close>

definition str_over_int :: exn where
  "str_over_int =
     Exn TypeError (''unsupported operand type(s) for /: '' @ quoted ''str'' @ '' and ''
       @ quoted ''int'') None"

section \<open>Basic facts\<close>

lemmas class_defs = BaseException_def Exception_def ArithmeticError_def ZeroDivisionError_def
  TypeError_def OSError_def PermissionError_def KeyboardInterrupt_def

lemma issubclass_refl: "issubclass c c"
  by (cases c) simp

text \<open>
  What leaves the \<^verbatim>\<open>except\<close> block is the error that was raised there: its class and
  message are untouched, and the exception that was being handled is in its context chain.
\<close>

lemma raised_class [simp]: "exn_class (raised_while_handling e' e) = exn_class e'"
  by (induction e' e rule: raised_while_handling.induct) simp_all

lemma raised_msg [simp]: "exn_msg (raised_while_handling e' e) = exn_msg e'"
  by (induction e' e rule: raised_while_handling.induct) simp_all

lemma raised_keeps_original: "in_context_chain e (raised_while_handling e' e)"
  by (induction e' e rule: raised_while_handling.induct) simp_all

lemma raised_is_larger: "size e < size (raised_while_handling e' e)"
  by (induction e' e rule: raised_while_handling.induct) simp_all

lemma raised_not_original: "raised_while_handling e' e \<noteq> e"
  using raised_is_larger[of e e'] by auto

lemma example_handler [simp]:
  "handlers example_world exc_handler
     = \<lparr>return_message = ''Unexpected error, seek help.'', log_file = ''default_error_log.txt''\<rparr>"
  by (simp add: example_world_def ExceptionHandler_init_def)

lemma member_matches: "exn_class e \<in> set exceptions \<Longrightarrow> except_matches e exceptions"
  unfolding except_matches_def using issubclass_refl by blast

lemma fresh_simps [simp]:
  "open_fault fresh_world = (\<lambda>p. None)" "write_fault fresh_world = (\<lambda>p. None)"
  "files fresh_world = (\<lambda>p. None)" "opened fresh_world = []"
  by (simp_all add: fresh_world_def)

lemma locked_simps [simp]:
  "open_fault (locked_world q) p = (if p = q then Some permission_denied else None)"
  "write_fault (locked_world q) = (\<lambda>p. None)"
  by (simp_all add: locked_world_def)

lemma full_simps [simp]:
  "open_fault (full_disk_world q n) = (\<lambda>p. None)"
  "write_fault (full_disk_world q n) p = (if p = q then Some (no_space_on_close, n) else None)"
  by (simp_all add: full_disk_world_def)

subsection \<open>One guard\<close>

text \<open>Opening, writing and closing, when neither the open nor the write fails.\<close>

lemma handled_step:
  "open_fault s1 p = None \<Longrightarrow> write_fault s1 p = None \<Longrightarrow>
   (case open_w p s1 of
      (Raises e1, s2) \<Rightarrow> (Raises (raised_while_handling e1 e), s2)
    | (Returns _, s2) \<Rightarrow>
       (case write_text p txt s2 of
          (Raises e2, s3) \<Rightarrow> (Raises (raised_while_handling e2 e), close_file p s3)
        | (Returns _, s3) \<Rightarrow> (Returns (PyStr m), close_file p s3)))
   = (Returns (PyStr m), s1\<lparr>files := (files s1)(p \<mapsto> txt)\<rparr>)"
  by (simp add: open_w_def write_text_def append_text_def close_file_def)

lemma wrapper_returns:
  "func args s = (Returns v, s1) \<Longrightarrow> wrapper tb C p m func args s = (Returns v, s1)"
  by (simp add: wrapper_def)

lemma wrapper_unmatched:
  "func args s = (Raises e, s1) \<Longrightarrow> \<not> except_matches e C \<Longrightarrow>
   wrapper tb C p m func args s = (Raises e, s1)"
  by (simp add: wrapper_def)

lemma wrapper_handled:
  "func args s = (Raises e, s1) \<Longrightarrow> except_matches e C \<Longrightarrow>
   open_fault s1 p = None \<Longrightarrow> write_fault s1 p = None \<Longrightarrow>
   wrapper tb C p m func args s = (Returns (PyStr m), s1\<lparr>files := (files s1)(p \<mapsto> tb e)\<rparr>)"
  by (simp add: wrapper_def handled_step)

lemma wrapper_open_fails:
  "func args s = (Raises e, s1) \<Longrightarrow> except_matches e C \<Longrightarrow>
   open_fault s1 p = Some e1 \<Longrightarrow>
   wrapper tb C p m func args s = (Raises (raised_while_handling e1 e), s1)"
  by (simp add: wrapper_def open_w_def)

lemma wrapper_write_fails:
  "func args s = (Raises e, s1) \<Longrightarrow> except_matches e C \<Longrightarrow>
   open_fault s1 p = None \<Longrightarrow> write_fault s1 p = Some (e2, n) \<Longrightarrow>
   wrapper tb C p m func args s =
     (Raises (raised_while_handling e2 e), s1\<lparr>files := (files s1)(p \<mapsto> take n (tb e))\<rparr>)"
  by (simp add: wrapper_def open_w_def write_text_def append_text_def close_file_def)

subsection \<open>The body of the demonstration\<close>

lemma body_div_zero:
  "div_array_body (PyList [PyInt 10, PyInt 0]) s = (Raises division_by_zero, s)"
  by (simp add: div_array_body_def reduce_def truediv_def division_by_zero_def)

lemma body_not_iterable:
  "div_array_body (PyInt 1) s = (Raises not_iterable, s)"
  by (simp add: div_array_body_def reduce_def not_iterable_def)

lemma body_ok:
  "div_array_body (PyList [PyInt 10, PyInt 2, PyInt 2]) s = (Returns (PyFloat (5 / 2)), s)"
  by (simp add: div_array_body_def reduce_def truediv_def)

lemma body_str_over_int:
  "div_array_body (PyList [PyStr ''1'', PyInt 2]) s = (Raises str_over_int, s)"
  by (simp add: div_array_body_def reduce_def truediv_def str_over_int_def)

lemma exn_class_simps [simp]:
  "exn_class division_by_zero = ZeroDivisionError"
  "exn_class not_iterable = TypeError"
  by (simp_all add: division_by_zero_def not_iterable_def)

lemma class_distinct [simp]:
  "ZeroDivisionError \<noteq> Exception" "ZeroDivisionError \<noteq> TypeError"
  "TypeError \<noteq> Exception" "TypeError \<noteq> ZeroDivisionError"
  by (simp_all add: class_defs)

lemma zde_matches [simp]:
  "except_matches division_by_zero [ZeroDivisionError]"
  "\<not> except_matches division_by_zero [TypeError]"
  "except_matches division_by_zero [Exception]"
  by (simp_all add: except_matches_def class_defs division_by_zero_def)

lemma te_matches [simp]:
  "\<not> except_matches not_iterable [ZeroDivisionError]"
  "except_matches not_iterable [TypeError]"
  "except_matches not_iterable [Exception]"
  by (simp_all add: except_matches_def class_defs not_iterable_def)

lemma perm_matches [simp]:
  "\<not> except_matches (raised_while_handling permission_denied e) [ZeroDivisionError]"
  "\<not> except_matches (raised_while_handling permission_denied e) [TypeError]"
  "except_matches (raised_while_handling permission_denied e) [Exception]"
  by (simp_all add: except_matches_def class_defs permission_denied_def)

lemma issubclass_not_iterable:
  "\<not> issubclass TypeError ZeroDivisionError"
  by (simp add: class_defs)

subsection \<open>Stacks of guards\<close>

lemma chain_returns:
  "func args s = (Returns v, s1) \<Longrightarrow> chain tb gs func args s = (Returns v, s1)"
  by (induction gs arbitrary: func) (simp_all add: wrapper_returns)

lemma chain_first_match:
  "func args s = (Raises e, s1) \<Longrightarrow> find (guard_matches e) gs = Some g \<Longrightarrow>
   open_fault s1 (guard_log_file g) = None \<Longrightarrow> write_fault s1 (guard_log_file g) = None \<Longrightarrow>
   chain tb gs func args s =
     (Returns (PyStr (guard_return_message g)),
      s1\<lparr>files := (files s1)(guard_log_file g \<mapsto> tb e)\<rparr>)"
proof (induction gs arbitrary: func)
  case Nil
  then show ?case by simp
next
  case (Cons h gs)
  show ?case
  proof (cases "guard_matches e h")
    case True
    with Cons.prems have hg: "h = g" by simp
    from True have "except_matches e (guard_exceptions h)"
      by (simp add: guard_matches_def)
    with Cons.prems(1,3,4) hg
    have "wrapper tb (guard_exceptions h) (guard_log_file h) (guard_return_message h) func args s
          = (Returns (PyStr (guard_return_message g)),
             s1\<lparr>files := (files s1)(guard_log_file g \<mapsto> tb e)\<rparr>)"
      using wrapper_handled[of func args s e s1 "guard_exceptions g" "guard_log_file g" tb
          "guard_return_message g"] by simp
    then have "chain tb gs
        (wrapper tb (guard_exceptions h) (guard_log_file h) (guard_return_message h) func) args s
          = (Returns (PyStr (guard_return_message g)),
             s1\<lparr>files := (files s1)(guard_log_file g \<mapsto> tb e)\<rparr>)"
      by (rule chain_returns)
    then show ?thesis by (simp only: chain.simps)
  next
    case False
    with Cons.prems have "find (guard_matches e) gs = Some g"
      by simp
    moreover from False have "\<not> except_matches e (guard_exceptions h)"
      by (simp add: guard_matches_def)
    with Cons.prems(1)
    have "wrapper tb (guard_exceptions h) (guard_log_file h) (guard_return_message h) func args s
          = (Raises e, s1)"
      by (rule wrapper_unmatched)
    ultimately show ?thesis using Cons.IH Cons.prems(3,4) by simp
  qed
qed

lemma div_array_chain:
  "div_array tb = chain tb [zero_division_guard, type_error_guard, default_guard] div_array_body"
  by (simp add: div_array_def exception_handler_decorator_def
      zero_division_guard_def type_error_guard_def default_guard_def)

lemma guard_simps [simp]:
  "guard_matches division_by_zero zero_division_guard"
  "guard_matches division_by_zero default_guard"
  "\<not> guard_matches not_iterable zero_division_guard"
  "guard_matches not_iterable type_error_guard"
  "guard_lists division_by_zero zero_division_guard"
  "\<not> guard_lists division_by_zero default_guard"
  by (simp_all add: guard_matches_def guard_lists_def zero_division_guard_def
      type_error_guard_def default_guard_def)

lemma guard_fields [simp]:
  "guard_log_file zero_division_guard = ''zerodivisionerror.txt''"
  "guard_return_message zero_division_guard = ''Division by 0 is impossible!''"
  "guard_log_file type_error_guard = ''typeerror.txt''"
  "guard_return_message type_error_guard
     = ''Type Error ocurred! Please check the data types and try again.''"
  "guard_log_file default_guard = ''default_error_log.txt''"
  "guard_return_message default_guard = ''Unexpected error, seek help.''"
  by (simp_all add: zero_division_guard_def type_error_guard_def default_guard_def)

subsection \<open>Callables that are blind to files\<close>

lemma wrapper_faults:
  "open_fault (snd (wrapper tb C p m func args s)) = open_fault (snd (func args s))"
  "write_fault (snd (wrapper tb C p m func args s)) = write_fault (snd (func args s))"
  by (auto simp: wrapper_def open_w_def write_text_def append_text_def close_file_def
      split: prod.splits outcome.splits option.splits)

text \<open>What a guard answers depends on the callable's outcome and on whether the log can be
  opened and written after the callable has run, and on nothing else.\<close>

lemma wrapper_outcome_cong:
  assumes "fst (func args s) = fst (func args s')"
    and "open_fault (snd (func args s)) p = open_fault (snd (func args s')) p"
    and "write_fault (snd (func args s)) p = write_fault (snd (func args s')) p"
  shows "fst (wrapper tb C p m func args s) = fst (wrapper tb C p m func args s')"
proof -
  obtain o1 s1 where a: "func args s = (o1, s1)" by (cases "func args s")
  obtain o2 s2 where b: "func args s' = (o2, s2)" by (cases "func args s'")
  from assms a b have "o2 = o1" "open_fault s2 p = open_fault s1 p"
    "write_fault s2 p = write_fault s1 p" by simp_all
  with a b show ?thesis
    by (auto simp: wrapper_def open_w_def write_text_def append_text_def close_file_def
        split: outcome.splits option.splits)
qed

lemma pure_file_blind: "\<forall>w. func args w = (out, w) \<Longrightarrow> file_blind func args"
  by (simp add: file_blind_def)

lemma body_file_blind: "file_blind div_array_body xs"
  by (simp add: file_blind_def div_array_body_def)

lemma file_blind_wrapper:
  assumes "file_blind func args"
  shows "file_blind (wrapper tb C p m func) args"
  unfolding file_blind_def
proof (intro allI impI conjI)
  fix s s' :: world
  assume eq: "open_fault s = open_fault s' \<and> write_fault s = write_fault s'"
  from assms eq have o: "fst (func args s) = fst (func args s')"
    and f1: "open_fault (snd (func args s)) = open_fault s"
    and f2: "write_fault (snd (func args s)) = write_fault s"
    unfolding file_blind_def by blast+
  from assms eq have g1: "open_fault (snd (func args s')) = open_fault s'"
    and g2: "write_fault (snd (func args s')) = write_fault s'"
    unfolding file_blind_def by metis+
  show "fst (wrapper tb C p m func args s) = fst (wrapper tb C p m func args s')"
    using o f1 f2 g1 g2 eq by (intro wrapper_outcome_cong) simp_all
  show "open_fault (snd (wrapper tb C p m func args s)) = open_fault s"
    by (simp add: wrapper_faults f1)
  show "write_fault (snd (wrapper tb C p m func args s)) = write_fault s"
    by (simp add: wrapper_faults f2)
qed

lemma file_blind_chain: "file_blind func args \<Longrightarrow> file_blind (chain tb gs func) args"
  by (induction gs arbitrary: func) (simp_all add: file_blind_wrapper)

lemma file_blind_repeat:
  assumes "file_blind func args"
  shows "fst (func args (snd (func args s))) = fst (func args s)"
proof -
  from assms have "open_fault (snd (func args s)) = open_fault s
      \<and> write_fault (snd (func args s)) = write_fault s"
    unfolding file_blind_def by blast
  with assms show ?thesis unfolding file_blind_def by blast
qed

lemma file_blind_faults:
  assumes "file_blind func args"
  shows "open_fault (snd (func args s)) = open_fault s"
    and "write_fault (snd (func args s)) = write_fault s"
  using assms unfolding file_blind_def by blast+

section \<open>The claims\<close>

text \<open>
  A guard is \<^verbatim>\<open>wrapper\<close> closed over its classes, its log file and its message, whatever
  arguments \<^verbatim>\<open>exception_handler_decorator\<close> was given (C6); the statements about one guard
  are therefore about \<open>wrapper\<close> at arbitrary values of the three. \<open>tb\<close> is the trace
  text, \<open>p\<close> the log file and \<open>m\<close> the message.
\<close>

text \<open>
  C1. When the wrapped callable raises an exception whose class is one of the guard's
  classes, and the log file can be opened and written, the guard truncates the log file,
  writes the trace of that exception as its whole content, closes it (no file is left
  open), and returns the fallback message; the exception does not reach the caller.
\<close>

theorem matched_exception_is_handled:
  "func args s = (Raises e, s1) \<Longrightarrow> exn_class e \<in> set exceptions \<Longrightarrow>
   open_fault s1 p = None \<Longrightarrow> write_fault s1 p = None \<Longrightarrow>
   wrapper tb exceptions p m func args s
     = (Returns (PyStr m), s1\<lparr>files := (files s1)(p \<mapsto> tb e)\<rparr>)"
  by (rule wrapper_handled) (simp_all add: member_matches)

theorem matched_exception_is_handled_witness:
  "wrapper plain_trace [ZeroDivisionError] ''zerodivisionerror.txt''
     ''Division by 0 is impossible!'' div_array_body (PyList [PyInt 10, PyInt 0]) fresh_world
   = (Returns (PyStr ''Division by 0 is impossible!''),
      fresh_world\<lparr>files := (files fresh_world)(''zerodivisionerror.txt'' \<mapsto>
         plain_trace division_by_zero)\<rparr>)"
  using matched_exception_is_handled[of div_array_body "PyList [PyInt 10, PyInt 0]" fresh_world
      division_by_zero fresh_world "[ZeroDivisionError]" "''zerodivisionerror.txt''" plain_trace
      "''Division by 0 is impossible!''"]
  by (simp add: body_div_zero)

text \<open>
  Without the proviso the statement fails: when \<^verbatim>\<open>zerodivisionerror.txt\<close> cannot be opened,
  the guard for \<^verbatim>\<open>ZeroDivisionError\<close> around the division of \<open>[10, 0]\<close> raises the
  \<^verbatim>\<open>PermissionError\<close> instead of returning its message.
\<close>

theorem unwritable_log_counterexample:
  "div_array_body (PyList [PyInt 10, PyInt 0]) (locked_world ''zerodivisionerror.txt'')
     = (Raises division_by_zero, locked_world ''zerodivisionerror.txt'')
   \<and> exn_class division_by_zero \<in> set [ZeroDivisionError]
   \<and> wrapper plain_trace [ZeroDivisionError] ''zerodivisionerror.txt''
        ''Division by 0 is impossible!'' div_array_body (PyList [PyInt 10, PyInt 0])
        (locked_world ''zerodivisionerror.txt'')
      = (Raises (raised_while_handling permission_denied division_by_zero),
         locked_world ''zerodivisionerror.txt'')"
  using wrapper_open_fails[of div_array_body "PyList [PyInt 10, PyInt 0]"
      "locked_world ''zerodivisionerror.txt''" division_by_zero
      "locked_world ''zerodivisionerror.txt''" "[ZeroDivisionError]"
      "''zerodivisionerror.txt''" permission_denied plain_trace "''Division by 0 is impossible!''"]
  by (simp add: body_div_zero)

text \<open>
  C2. When the wrapped callable raises an exception whose class is neither one of the
  guard's classes nor derived from one of them, the guard raises that same exception and
  leaves the file system as the callable left it.
\<close>

theorem unmatched_exception_propagates:
  "func args s = (Raises e, s1) \<Longrightarrow> exn_class e \<notin> set exceptions \<Longrightarrow>
   \<forall>c \<in> set exceptions. \<not> issubclass (exn_class e) c \<Longrightarrow>
   wrapper tb exceptions p m func args s = (Raises e, s1)"
  by (rule wrapper_unmatched) (simp_all add: except_matches_def)

theorem unmatched_exception_propagates_witness:
  "wrapper plain_trace [ZeroDivisionError] ''zerodivisionerror.txt''
     ''Division by 0 is impossible!'' div_array_body (PyInt 1) fresh_world
   = (Raises not_iterable, fresh_world)"
  using unmatched_exception_propagates[of div_array_body "PyInt 1" fresh_world not_iterable
      fresh_world "[ZeroDivisionError]" plain_trace "''zerodivisionerror.txt''"
      "''Division by 0 is impossible!''"]
  by (simp add: body_not_iterable issubclass_not_iterable)

text \<open>
  Membership alone does not decide it: \<^verbatim>\<open>ZeroDivisionError\<close> is not in the tuple
  \<^verbatim>\<open>(Exception,)\<close>, yet the guard for \<^verbatim>\<open>(Exception,)\<close> catches the division by zero,
  writes the log and returns its message.
\<close>

theorem subclass_is_caught_counterexample:
  "div_array_body (PyList [PyInt 10, PyInt 0]) fresh_world = (Raises division_by_zero, fresh_world)
   \<and> exn_class division_by_zero \<notin> set [Exception]
   \<and> wrapper plain_trace [Exception] ''default_error_log.txt'' ''Unexpected error, seek help.''
        div_array_body (PyList [PyInt 10, PyInt 0]) fresh_world
      = (Returns (PyStr ''Unexpected error, seek help.''),
         fresh_world\<lparr>files := (files fresh_world)(''default_error_log.txt'' \<mapsto>
           plain_trace division_by_zero)\<rparr>)"
  using wrapper_handled[of div_array_body "PyList [PyInt 10, PyInt 0]" fresh_world
      division_by_zero fresh_world "[Exception]" "''default_error_log.txt''" plain_trace
      "''Unexpected error, seek help.''"]
  by (simp add: body_div_zero)

text \<open>
  C3. When the wrapped callable returns, the guard returns the same value, and the file
  system is as the callable left it.
\<close>

theorem success_passes_through:
  "func args s = (Returns v, s1) \<Longrightarrow> wrapper tb exceptions p m func args s = (Returns v, s1)"
  by (rule wrapper_returns)

theorem success_passes_through_witness:
  "wrapper plain_trace [ZeroDivisionError] ''zerodivisionerror.txt''
     ''Division by 0 is impossible!'' div_array_body (PyList [PyInt 10, PyInt 2, PyInt 2])
     fresh_world
   = (Returns (PyFloat (5 / 2)), fresh_world)"
  using success_passes_through[of div_array_body "PyList [PyInt 10, PyInt 2, PyInt 2]"
      fresh_world "PyFloat (5 / 2)" fresh_world plain_trace "[ZeroDivisionError]"
      "''zerodivisionerror.txt''" "''Division by 0 is impossible!''"]
  by (simp add: body_ok)

text \<open>
  C4. In a stack of guards the one nearest the callable sees the exception first, and the
  first guard whose \<^verbatim>\<open>except\<close> clause matches it (the class of the exception is one of the
  guard's classes or derives from one) settles the call: when that guard's log file can be
  opened and written, the stack returns that guard's message, and the only file changed is
  that guard's log, so no guard further out has written anything. For the three guards of
  the demonstration, \<open>[10, 0]\<close> yields the message for \<^verbatim>\<open>ZeroDivisionError\<close> when
  \<^verbatim>\<open>zerodivisionerror.txt\<close> can be opened and written.
\<close>

theorem innermost_matching_guard_wins:
  "(func args s = (Raises e, s1) \<and> find (guard_matches e) gs = Some g
      \<and> open_fault s1 (guard_log_file g) = None \<and> write_fault s1 (guard_log_file g) = None
    \<longrightarrow> chain tb gs func args s
          = (Returns (PyStr (guard_return_message g)),
             s1\<lparr>files := (files s1)(guard_log_file g \<mapsto> tb e)\<rparr>))
   \<and> (open_fault w ''zerodivisionerror.txt'' = None
        \<and> write_fault w ''zerodivisionerror.txt'' = None
      \<longrightarrow> div_array tb (PyList [PyInt 10, PyInt 0]) w
            = (Returns (PyStr ''Division by 0 is impossible!''),
               w\<lparr>files := (files w)(''zerodivisionerror.txt'' \<mapsto> tb division_by_zero)\<rparr>))"
proof (intro conjI impI)
  assume "func args s = (Raises e, s1) \<and> find (guard_matches e) gs = Some g
      \<and> open_fault s1 (guard_log_file g) = None \<and> write_fault s1 (guard_log_file g) = None"
  then show "chain tb gs func args s
          = (Returns (PyStr (guard_return_message g)),
             s1\<lparr>files := (files s1)(guard_log_file g \<mapsto> tb e)\<rparr>)"
    by (simp add: chain_first_match)
next
  assume w: "open_fault w ''zerodivisionerror.txt'' = None
        \<and> write_fault w ''zerodivisionerror.txt'' = None"
  have "find (guard_matches division_by_zero)
          [zero_division_guard, type_error_guard, default_guard] = Some zero_division_guard"
    by simp
  with w have "chain tb [zero_division_guard, type_error_guard, default_guard] div_array_body
      (PyList [PyInt 10, PyInt 0]) w
      = (Returns (PyStr (guard_return_message zero_division_guard)),
         w\<lparr>files := (files w)(guard_log_file zero_division_guard \<mapsto> tb division_by_zero)\<rparr>)"
    by (intro chain_first_match) (simp_all add: body_div_zero)
  then show "div_array tb (PyList [PyInt 10, PyInt 0]) w
            = (Returns (PyStr ''Division by 0 is impossible!''),
               w\<lparr>files := (files w)(''zerodivisionerror.txt'' \<mapsto> tb division_by_zero)\<rparr>)"
    by (simp only: div_array_chain guard_fields)
qed

theorem innermost_matching_guard_wins_witness:
  "chain plain_trace [default_guard, zero_division_guard] div_array_body
      (PyList [PyInt 10, PyInt 0]) fresh_world
    = (Returns (PyStr ''Unexpected error, seek help.''),
       fresh_world\<lparr>files := (files fresh_world)(''default_error_log.txt'' \<mapsto>
          plain_trace division_by_zero)\<rparr>)
   \<and> div_array plain_trace (PyList [PyInt 10, PyInt 0]) fresh_world
    = (Returns (PyStr ''Division by 0 is impossible!''),
       fresh_world\<lparr>files := (files fresh_world)(''zerodivisionerror.txt'' \<mapsto>
          plain_trace division_by_zero)\<rparr>)"
  using innermost_matching_guard_wins[of div_array_body "PyList [PyInt 10, PyInt 0]" fresh_world
      division_by_zero fresh_world "[default_guard, zero_division_guard]" default_guard
      plain_trace fresh_world]
  by (simp add: body_div_zero)

text \<open>
  Read with plain membership, or without the proviso, the statement fails. With the
  guard for \<^verbatim>\<open>(Exception,)\<close> placed inside the guard for \<^verbatim>\<open>(ZeroDivisionError,)\<close>, the
  innermost guard that lists \<^verbatim>\<open>ZeroDivisionError\<close> is the outer one, yet the inner one
  settles the call with the general message. And when \<^verbatim>\<open>zerodivisionerror.txt\<close> cannot be
  opened, the demonstration's stack answers \<open>[10, 0]\<close> with the general message: the
  \<^verbatim>\<open>PermissionError\<close> of the innermost guard travels outwards and the outermost guard
  catches it.
\<close>

theorem listed_guard_is_preempted_counterexample:
  "find (guard_lists division_by_zero) [default_guard, zero_division_guard]
     = Some zero_division_guard
   \<and> fst (chain plain_trace [default_guard, zero_division_guard] div_array_body
        (PyList [PyInt 10, PyInt 0]) fresh_world)
     = Returns (PyStr (guard_return_message default_guard))
   \<and> guard_return_message default_guard \<noteq> guard_return_message zero_division_guard
   \<and> fst (div_array plain_trace (PyList [PyInt 10, PyInt 0])
        (locked_world ''zerodivisionerror.txt''))
     = Returns (PyStr ''Unexpected error, seek help.'')"
proof -
  have a: "chain plain_trace [default_guard, zero_division_guard] div_array_body
        (PyList [PyInt 10, PyInt 0]) fresh_world
     = (Returns (PyStr (guard_return_message default_guard)),
        fresh_world\<lparr>files := (files fresh_world)(guard_log_file default_guard \<mapsto>
          plain_trace division_by_zero)\<rparr>)"
    by (intro chain_first_match) (simp_all add: body_div_zero)
  let ?w = "locked_world ''zerodivisionerror.txt''"
  let ?e = "raised_while_handling permission_denied division_by_zero"
  let ?xs = "PyList [PyInt 10, PyInt 0]"
  let ?g1 = "wrapper plain_trace [ZeroDivisionError] ''zerodivisionerror.txt''
      ''Division by 0 is impossible!'' div_array_body"
  let ?g2 = "wrapper plain_trace [TypeError] ''typeerror.txt''
      ''Type Error ocurred! Please check the data types and try again.'' ?g1"
  let ?g3 = "wrapper plain_trace [Exception] ''default_error_log.txt''
      ''Unexpected error, seek help.'' ?g2"
  have 1: "?g1 ?xs ?w = (Raises ?e, ?w)"
    using wrapper_open_fails[of div_array_body ?xs ?w division_by_zero ?w "[ZeroDivisionError]"
        "''zerodivisionerror.txt''" permission_denied plain_trace
        "''Division by 0 is impossible!''"]
    by (simp add: body_div_zero)
  have 2: "?g2 ?xs ?w = (Raises ?e, ?w)"
    using wrapper_unmatched[of ?g1 ?xs ?w ?e ?w "[TypeError]" plain_trace "''typeerror.txt''"
        "''Type Error ocurred! Please check the data types and try again.''"] 1
    by simp
  have 3: "?g3 ?xs ?w
      = (Returns (PyStr ''Unexpected error, seek help.''),
         ?w\<lparr>files := (files ?w)(''default_error_log.txt'' \<mapsto> plain_trace ?e)\<rparr>)"
    using wrapper_handled[of ?g2 ?xs ?w ?e ?w "[Exception]" "''default_error_log.txt''"
        plain_trace "''Unexpected error, seek help.''"] 2
    by simp
  have b: "fst (div_array plain_trace (PyList [PyInt 10, PyInt 0]) ?w)
     = Returns (PyStr ''Unexpected error, seek help.'')"
    by (simp add: div_array_def exception_handler_decorator_def 3)
  show ?thesis using a b by simp
qed

text \<open>
  C5. The single number \<open>1\<close> is not iterable, so \<^verbatim>\<open>reduce\<close> raises a \<^verbatim>\<open>TypeError\<close>; the
  middle guard catches it. When \<^verbatim>\<open>typeerror.txt\<close> can be opened and written, the call
  returns the message for \<^verbatim>\<open>TypeError\<close> and the trace is in \<^verbatim>\<open>typeerror.txt\<close>.
\<close>

theorem non_iterable_is_a_type_error:
  "open_fault w ''typeerror.txt'' = None \<Longrightarrow> write_fault w ''typeerror.txt'' = None \<Longrightarrow>
   div_array tb (PyInt 1) w
     = (Returns (PyStr ''Type Error ocurred! Please check the data types and try again.''),
        w\<lparr>files := (files w)(''typeerror.txt'' \<mapsto> tb not_iterable)\<rparr>)"
proof -
  assume w: "open_fault w ''typeerror.txt'' = None" "write_fault w ''typeerror.txt'' = None"
  have "find (guard_matches not_iterable)
          [zero_division_guard, type_error_guard, default_guard] = Some type_error_guard"
    by simp
  with w have "chain tb [zero_division_guard, type_error_guard, default_guard] div_array_body
      (PyInt 1) w
      = (Returns (PyStr (guard_return_message type_error_guard)),
         w\<lparr>files := (files w)(guard_log_file type_error_guard \<mapsto> tb not_iterable)\<rparr>)"
    by (intro chain_first_match) (simp_all add: body_not_iterable)
  then show ?thesis
    by (simp only: div_array_chain guard_fields)
qed

theorem non_iterable_is_a_type_error_witness:
  "div_array plain_trace (PyInt 1) fresh_world
     = (Returns (PyStr ''Type Error ocurred! Please check the data types and try again.''),
        fresh_world\<lparr>files := (files fresh_world)(''typeerror.txt'' \<mapsto>
          plain_trace not_iterable)\<rparr>)"
  using non_iterable_is_a_type_error[of fresh_world plain_trace] by simp

text \<open>
  The result is not the general message of the outermost guard: the exception is a
  \<^verbatim>\<open>TypeError\<close>, which the middle guard is there for.
\<close>

theorem generic_fallback_counterexample:
  "div_array_body (PyInt 1) fresh_world = (Raises not_iterable, fresh_world)
   \<and> exn_class not_iterable = TypeError
   \<and> fst (div_array plain_trace (PyInt 1) fresh_world)
     = Returns (PyStr ''Type Error ocurred! Please check the data types and try again.'')
   \<and> fst (div_array plain_trace (PyInt 1) fresh_world)
     \<noteq> Returns (PyStr (return_message (handlers example_world exc_handler)))"
proof -
  have "find (guard_matches not_iterable)
          [zero_division_guard, type_error_guard, default_guard] = Some type_error_guard"
    by simp
  then have "chain plain_trace [zero_division_guard, type_error_guard, default_guard]
      div_array_body (PyInt 1) fresh_world
      = (Returns (PyStr (guard_return_message type_error_guard)),
         fresh_world\<lparr>files := (files fresh_world)(guard_log_file type_error_guard \<mapsto>
           plain_trace not_iterable)\<rparr>)"
    by (intro chain_first_match) (simp_all add: body_not_iterable)
  then have "fst (div_array plain_trace (PyInt 1) fresh_world)
     = Returns (PyStr ''Type Error ocurred! Please check the data types and try again.'')"
    by (simp only: div_array_chain guard_fields fst_conv)
  then show ?thesis
    by (simp add: body_not_iterable)
qed

text \<open>
  C6. A guard made without \<^verbatim>\<open>return_message\<close> (or with \<^verbatim>\<open>None\<close>) returns the message
  the handler holds in the state \<open>s0\<close> in which the guard is made, and one made without
  \<^verbatim>\<open>log_file\<close> writes to the file the handler holds in \<open>s0\<close>; an argument that is given
  is used instead. The state \<open>s\<close> in which the guard is called is any state: what the
  handler's attributes are by then, or what the callable assigns to them, does not enter.
  The defaults are read once, when the guard is made.
\<close>

theorem defaults_resolved_at_production:
  "exception_handler_decorator tb self exceptions None None s0 func args s
     = wrapper tb exceptions (log_file (handlers s0 self)) (return_message (handlers s0 self))
         func args s
   \<and> exception_handler_decorator tb self exceptions (Some m) None s0 func args s
     = wrapper tb exceptions (log_file (handlers s0 self)) m func args s
   \<and> exception_handler_decorator tb self exceptions None (Some l) s0 func args s
     = wrapper tb exceptions l (return_message (handlers s0 self)) func args s
   \<and> exception_handler_decorator tb self exceptions (Some m) (Some l) s0 func args s
     = wrapper tb exceptions l m func args s"
  by (simp add: exception_handler_decorator_def Let_def)

text \<open>
  A guard made in \<open>example_world\<close> and called after both attributes of the handler have
  been assigned new values still writes to \<^verbatim>\<open>default_error_log.txt\<close> and returns the
  message of \<open>example_world\<close>; with both arguments given it uses those.
\<close>

theorem defaults_resolved_at_production_witness:
  "exception_handler_decorator plain_trace exc_handler [Exception] None None example_world
      div_array_body (PyList [PyInt 10, PyInt 0]) reassigned_world
     = (Returns (PyStr ''Unexpected error, seek help.''),
        reassigned_world\<lparr>files := (files reassigned_world)(''default_error_log.txt'' \<mapsto>
          plain_trace division_by_zero)\<rparr>)
   \<and> return_message (handlers reassigned_world exc_handler) = ''changed''
   \<and> log_file (handlers reassigned_world exc_handler) = ''changed.txt''
   \<and> exception_handler_decorator plain_trace exc_handler [Exception]
      (Some ''Division by 0 is impossible!'') (Some ''zerodivisionerror.txt'') example_world
      div_array_body (PyList [PyInt 10, PyInt 0]) fresh_world
     = (Returns (PyStr ''Division by 0 is impossible!''),
        fresh_world\<lparr>files := (files fresh_world)(''zerodivisionerror.txt'' \<mapsto>
          plain_trace division_by_zero)\<rparr>)"
  using defaults_resolved_at_production[of plain_trace exc_handler "[Exception]" example_world
      div_array_body "PyList [PyInt 10, PyInt 0]" reassigned_world
      "''Division by 0 is impossible!''" "''zerodivisionerror.txt''"]
    defaults_resolved_at_production[of plain_trace exc_handler "[Exception]" example_world
      div_array_body "PyList [PyInt 10, PyInt 0]" fresh_world
      "''Division by 0 is impossible!''" "''zerodivisionerror.txt''"]
    wrapper_handled[of div_array_body "PyList [PyInt 10, PyInt 0]" reassigned_world
      division_by_zero reassigned_world "[Exception]" "''default_error_log.txt''" plain_trace
      "''Unexpected error, seek help.''"]
    wrapper_handled[of div_array_body "PyList [PyInt 10, PyInt 0]" fresh_world
      division_by_zero fresh_world "[Exception]" "''zerodivisionerror.txt''" plain_trace
      "''Division by 0 is impossible!''"]
  by (simp add: body_div_zero reassigned_world_def example_world_def ExceptionHandler_init_def)

text \<open>
  C7. When the wrapped callable returns, a stack of guards of any height returns the same
  value and leaves the file system as the callable left it: no guard has opened or written
  a log file. The demonstration's \<^verbatim>\<open>div_array\<close> maps \<open>[10, 2, 2]\<close> to \<open>2.5\<close> and leaves
  the file system untouched.
\<close>

theorem success_writes_nothing:
  "(func args s = (Returns v, s1) \<longrightarrow> chain tb gs func args s = (Returns v, s1))
   \<and> div_array tb (PyList [PyInt 10, PyInt 2, PyInt 2]) w = (Returns (PyFloat (5 / 2)), w)"
proof (intro conjI impI)
  assume "func args s = (Returns v, s1)"
  then show "chain tb gs func args s = (Returns v, s1)"
    by (rule chain_returns)
next
  have "chain tb [zero_division_guard, type_error_guard, default_guard] div_array_body
      (PyList [PyInt 10, PyInt 2, PyInt 2]) w = (Returns (PyFloat (5 / 2)), w)"
    by (rule chain_returns) (rule body_ok)
  then show "div_array tb (PyList [PyInt 10, PyInt 2, PyInt 2]) w = (Returns (PyFloat (5 / 2)), w)"
    by (simp only: div_array_chain)
qed

theorem success_writes_nothing_witness:
  "chain plain_trace [zero_division_guard, type_error_guard] div_array_body
      (PyList [PyInt 10, PyInt 2, PyInt 2]) (locked_world ''typeerror.txt'')
     = (Returns (PyFloat (5 / 2)), locked_world ''typeerror.txt'')
   \<and> div_array plain_trace (PyList [PyInt 10, PyInt 2, PyInt 2]) fresh_world
     = (Returns (PyFloat (5 / 2)), fresh_world)"
  using success_writes_nothing[of div_array_body "PyList [PyInt 10, PyInt 2, PyInt 2]"
      "locked_world ''typeerror.txt''" "PyFloat (5 / 2)" "locked_world ''typeerror.txt''"
      plain_trace "[zero_division_guard, type_error_guard]" fresh_world]
  by (simp add: body_ok)

text \<open>
  C8. When a guard matches the exception and the log file cannot be opened, or can be
  opened but not written, what the guard raises is that failure: an exception with the
  class and the message of the error of the open or of the write, with the exception the
  callable raised in its context chain. The guard does not return its message and does
  not re-raise the callable's exception. After a failed write the file holds what had been
  written of the trace, and no file is left open.
\<close>

theorem log_failure_propagates:
  "func args s = (Raises e, s1) \<Longrightarrow> except_matches e exceptions \<Longrightarrow>
   (open_fault s1 p = Some e1 \<longrightarrow>
      wrapper tb exceptions p m func args s = (Raises (raised_while_handling e1 e), s1)
      \<and> exn_class (raised_while_handling e1 e) = exn_class e1
      \<and> exn_msg (raised_while_handling e1 e) = exn_msg e1
      \<and> in_context_chain e (raised_while_handling e1 e)
      \<and> raised_while_handling e1 e \<noteq> e)
   \<and> (open_fault s1 p = None \<and> write_fault s1 p = Some (e2, n) \<longrightarrow>
      wrapper tb exceptions p m func args s
        = (Raises (raised_while_handling e2 e),
           s1\<lparr>files := (files s1)(p \<mapsto> take n (tb e))\<rparr>)
      \<and> exn_class (raised_while_handling e2 e) = exn_class e2
      \<and> exn_msg (raised_while_handling e2 e) = exn_msg e2
      \<and> in_context_chain e (raised_while_handling e2 e)
      \<and> raised_while_handling e2 e \<noteq> e)
   \<and> (open_fault s1 p \<noteq> None \<or> write_fault s1 p \<noteq> None \<longrightarrow>
      fst (wrapper tb exceptions p m func args s) \<noteq> Returns (PyStr m))"
proof (intro conjI impI)
  assume f: "func args s = (Raises e, s1)" and mt: "except_matches e exceptions"
  show "exn_class (raised_while_handling e1 e) = exn_class e1"
    and "exn_msg (raised_while_handling e1 e) = exn_msg e1"
    and "exn_class (raised_while_handling e2 e) = exn_class e2"
    and "exn_msg (raised_while_handling e2 e) = exn_msg e2"
    by simp_all
  show "in_context_chain e (raised_while_handling e1 e)"
    and "in_context_chain e (raised_while_handling e2 e)"
    by (rule raised_keeps_original)+
  show "raised_while_handling e1 e \<noteq> e" and "raised_while_handling e2 e \<noteq> e"
    by (rule raised_not_original)+
  {
    assume "open_fault s1 p = Some e1"
    with f mt show "wrapper tb exceptions p m func args s
        = (Raises (raised_while_handling e1 e), s1)"
      by (rule wrapper_open_fails)
  }
  {
    assume "open_fault s1 p = None \<and> write_fault s1 p = Some (e2, n)"
    with f mt show "wrapper tb exceptions p m func args s
        = (Raises (raised_while_handling e2 e), s1\<lparr>files := (files s1)(p \<mapsto> take n (tb e))\<rparr>)"
      by (simp add: wrapper_write_fails)
  }
  {
    assume bad: "open_fault s1 p \<noteq> None \<or> write_fault s1 p \<noteq> None"
    show "fst (wrapper tb exceptions p m func args s) \<noteq> Returns (PyStr m)"
    proof (cases "open_fault s1 p")
      case (Some x)
      with f mt show ?thesis by (simp add: wrapper_open_fails)
    next
      case None
      with bad obtain y k where "write_fault s1 p = Some (y, k)" by (cases "write_fault s1 p") auto
      with f mt None show ?thesis by (simp add: wrapper_write_fails)
    qed
  }
qed

text \<open>
  The guard for \<^verbatim>\<open>ZeroDivisionError\<close> around the division of \<open>[10, 0]\<close>: with the log
  locked it raises the \<^verbatim>\<open>PermissionError\<close>, whose context is the division by zero; on a
  full disk it raises the \<^verbatim>\<open>OSError\<close> of closing the file, whose context is the
  \<^verbatim>\<open>OSError\<close> of the flush, whose context is the division by zero.
\<close>

theorem log_failure_propagates_witness:
  "wrapper plain_trace [ZeroDivisionError] ''zerodivisionerror.txt''
      ''Division by 0 is impossible!'' div_array_body (PyList [PyInt 10, PyInt 0])
      (locked_world ''zerodivisionerror.txt'')
     = (Raises (Exn PermissionError ''[Errno 13] Permission denied'' (Some division_by_zero)),
        locked_world ''zerodivisionerror.txt'')
   \<and> wrapper plain_trace [ZeroDivisionError] ''zerodivisionerror.txt''
      ''Division by 0 is impossible!'' div_array_body (PyList [PyInt 10, PyInt 0])
      (full_disk_world ''zerodivisionerror.txt'' 4)
     = (Raises (Exn OSError ''[Errno 28] No space left on device''
                 (Some (Exn OSError ''[Errno 28] No space left on device''
                   (Some division_by_zero)))),
        (full_disk_world ''zerodivisionerror.txt'' 4)
          \<lparr>files := (files (full_disk_world ''zerodivisionerror.txt'' 4))
             (''zerodivisionerror.txt'' \<mapsto> take 4 (plain_trace division_by_zero))\<rparr>)"
  using log_failure_propagates[of div_array_body "PyList [PyInt 10, PyInt 0]"
        "locked_world ''zerodivisionerror.txt''" division_by_zero
        "locked_world ''zerodivisionerror.txt''" "[ZeroDivisionError]"
        "''zerodivisionerror.txt''" permission_denied plain_trace
        "''Division by 0 is impossible!''" no_space_on_close 4]
    log_failure_propagates[of div_array_body "PyList [PyInt 10, PyInt 0]"
        "full_disk_world ''zerodivisionerror.txt'' 4" division_by_zero
        "full_disk_world ''zerodivisionerror.txt'' 4" "[ZeroDivisionError]"
        "''zerodivisionerror.txt''" permission_denied plain_trace
        "''Division by 0 is impossible!''" no_space_on_close 4]
  by (simp add: body_div_zero permission_denied_def no_space_on_close_def no_space_def)

text \<open>
  C9. For a wrapped callable that is blind to files, calling the guarded callable a second
  time with the same arguments, in the state the first call left, gives the same result
  as the first call. The guarded callable is blind to files again, so the same holds under
  any number of further guards; the demonstration's \<^verbatim>\<open>div_array\<close> gives the same result
  twice for every argument and every state. A call the guard handles leaves the trace as
  the whole content of the log file, whatever the file held before, so after the second
  call the file holds the second trace and nothing else.
\<close>

theorem repeated_call_overwrites:
  "(file_blind func args \<longrightarrow>
      fst (wrapper tb C p m func args (snd (wrapper tb C p m func args s)))
        = fst (wrapper tb C p m func args s)
      \<and> file_blind (wrapper tb C p m func) args
      \<and> (fst (func args s) = Raises e \<and> except_matches e C
           \<and> open_fault s p = None \<and> write_fault s p = None
         \<longrightarrow> fst (wrapper tb C p m func args s) = Returns (PyStr m)
           \<and> files (snd (wrapper tb C p m func args s)) p = Some (tb e)
           \<and> files (snd (wrapper tb C p m func args (snd (wrapper tb C p m func args s)))) p
               = Some (tb e)))
   \<and> fst (div_array tb xs (snd (div_array tb xs w))) = fst (div_array tb xs w)"
proof (intro conjI impI)
  let ?g = "wrapper tb C p m func"
  assume fb: "file_blind func args"
  then show gb: "file_blind ?g args" by (rule file_blind_wrapper)
  then show "fst (?g args (snd (?g args s))) = fst (?g args s)" by (rule file_blind_repeat)
  assume h: "fst (func args s) = Raises e \<and> except_matches e C
           \<and> open_fault s p = None \<and> write_fault s p = None"
  have handled: "fst (?g args u) = Returns (PyStr m) \<and> files (snd (?g args u)) p = Some (tb e)"
    if u: "open_fault u = open_fault s" "write_fault u = write_fault s" for u
  proof -
    from fb u have "fst (func args u) = fst (func args s)"
      unfolding file_blind_def by blast
    with h obtain u1 where f: "func args u = (Raises e, u1)"
      by (cases "func args u") simp
    from file_blind_faults[OF fb, of u] f u h
    have "open_fault u1 p = None" "write_fault u1 p = None" by simp_all
    with f h have "?g args u = (Returns (PyStr m), u1\<lparr>files := (files u1)(p \<mapsto> tb e)\<rparr>)"
      by (simp add: wrapper_handled)
    then show ?thesis by simp
  qed
  from handled[of s] show "fst (?g args s) = Returns (PyStr m)"
    and "files (snd (?g args s)) p = Some (tb e)" by simp_all
  from handled[of "snd (?g args s)"] file_blind_faults[OF gb, of s]
  show "files (snd (?g args (snd (?g args s)))) p = Some (tb e)" by simp
next
  have "file_blind (div_array tb) xs"
    by (simp only: div_array_chain) (intro file_blind_chain body_file_blind)
  then show "fst (div_array tb xs (snd (div_array tb xs w))) = fst (div_array tb xs w)"
    by (rule file_blind_repeat)
qed

text \<open>
  Two guards around the body of the demonstration, called twice on \<open>[10, 0]\<close> with old
  text in the log; and the demonstration called twice on \<open>1\<close>.
\<close>

theorem repeated_call_overwrites_witness:
  "fst (wrapper plain_trace [ZeroDivisionError] ''zerodivisionerror.txt''
          ''Division by 0 is impossible!''
          (wrapper plain_trace [TypeError] ''typeerror.txt'' ''wrong type'' div_array_body)
          (PyList [PyInt 10, PyInt 0])
          (snd (wrapper plain_trace [ZeroDivisionError] ''zerodivisionerror.txt''
             ''Division by 0 is impossible!''
             (wrapper plain_trace [TypeError] ''typeerror.txt'' ''wrong type'' div_array_body)
             (PyList [PyInt 10, PyInt 0]) stale_world)))
     = Returns (PyStr ''Division by 0 is impossible!'')
   \<and> files (snd (wrapper plain_trace [ZeroDivisionError] ''zerodivisionerror.txt''
          ''Division by 0 is impossible!''
          (wrapper plain_trace [TypeError] ''typeerror.txt'' ''wrong type'' div_array_body)
          (PyList [PyInt 10, PyInt 0])
          (snd (wrapper plain_trace [ZeroDivisionError] ''zerodivisionerror.txt''
             ''Division by 0 is impossible!''
             (wrapper plain_trace [TypeError] ''typeerror.txt'' ''wrong type'' div_array_body)
             (PyList [PyInt 10, PyInt 0]) stale_world)))) ''zerodivisionerror.txt''
     = Some (plain_trace division_by_zero)
   \<and> files stale_world ''zerodivisionerror.txt'' = Some ''old text''
   \<and> fst (div_array plain_trace (PyInt 1) (snd (div_array plain_trace (PyInt 1) fresh_world)))
     = fst (div_array plain_trace (PyInt 1) fresh_world)"
proof -
  let ?inner = "wrapper plain_trace [TypeError] ''typeerror.txt'' ''wrong type'' div_array_body"
  let ?xs = "PyList [PyInt 10, PyInt 0]"
  have fb: "file_blind ?inner ?xs"
    by (intro file_blind_wrapper body_file_blind)
  have inner: "?inner ?xs stale_world = (Raises division_by_zero, stale_world)"
    using wrapper_unmatched[of div_array_body ?xs stale_world division_by_zero stale_world
        "[TypeError]" plain_trace "''typeerror.txt''" "''wrong type''"]
    by (simp add: body_div_zero)
  have faults: "open_fault stale_world ''zerodivisionerror.txt'' = None"
    "write_fault stale_world ''zerodivisionerror.txt'' = None"
    by (simp_all add: stale_world_def)
  from repeated_call_overwrites[of ?inner ?xs plain_trace "[ZeroDivisionError]"
      "''zerodivisionerror.txt''" "''Division by 0 is impossible!''" stale_world
      division_by_zero "PyInt 1" fresh_world] fb inner faults
  show ?thesis by (simp add: stale_world_def)
qed

text \<open>
  Without the condition on the callable the statement fails. \<open>flaky\<close> reads the file its
  guard logs to: the first call finds no file, the guard writes the trace and returns its
  message; the second call, with the same arguments and nothing changed but by the guard
  itself, finds the file and returns the trace.
\<close>

theorem log_reader_counterexample:
  "fst (wrapper plain_trace [OSError] ''flaky.log'' ''fallback'' flaky () fresh_world)
     = Returns (PyStr ''fallback'')
   \<and> fst (wrapper plain_trace [OSError] ''flaky.log'' ''fallback'' flaky ()
          (snd (wrapper plain_trace [OSError] ''flaky.log'' ''fallback'' flaky () fresh_world)))
     = Returns (PyStr ''FileNotFoundError: [Errno 2] No such file or directory'')
   \<and> fst (wrapper plain_trace [OSError] ''flaky.log'' ''fallback'' flaky ()
          (snd (wrapper plain_trace [OSError] ''flaky.log'' ''fallback'' flaky () fresh_world)))
     \<noteq> fst (wrapper plain_trace [OSError] ''flaky.log'' ''fallback'' flaky () fresh_world)"
proof -
  have m: "except_matches file_not_found [OSError]"
    by (simp add: except_matches_def file_not_found_def FileNotFoundError_def OSError_def)
  have first: "wrapper plain_trace [OSError] ''flaky.log'' ''fallback'' flaky () fresh_world
      = (Returns (PyStr ''fallback''),
         fresh_world\<lparr>files := (files fresh_world)(''flaky.log'' \<mapsto>
           plain_trace file_not_found)\<rparr>)"
    using wrapper_handled[of flaky "()" fresh_world file_not_found fresh_world "[OSError]"
        "''flaky.log''" plain_trace "''fallback''"] m
    by (simp add: flaky_def)
  have second: "wrapper plain_trace [OSError] ''flaky.log'' ''fallback'' flaky ()
        (fresh_world\<lparr>files := (files fresh_world)(''flaky.log'' \<mapsto>
           plain_trace file_not_found)\<rparr>)
      = (Returns (PyStr (plain_trace file_not_found)),
         fresh_world\<lparr>files := (files fresh_world)(''flaky.log'' \<mapsto>
           plain_trace file_not_found)\<rparr>)"
    by (rule wrapper_returns) (simp add: flaky_def)
  have again: "fst (wrapper plain_trace [OSError] ''flaky.log'' ''fallback'' flaky ()
          (snd (wrapper plain_trace [OSError] ''flaky.log'' ''fallback'' flaky () fresh_world)))
     = Returns (PyStr (plain_trace file_not_found))"
    by (simp only: first second fst_conv snd_conv)
  have shown: "plain_trace file_not_found
      = ''FileNotFoundError: [Errno 2] No such file or directory''"
    by (simp add: plain_trace_def file_not_found_def FileNotFoundError_def)
  have c1: "fst (wrapper plain_trace [OSError] ''flaky.log'' ''fallback'' flaky () fresh_world)
     = Returns (PyStr ''fallback'')"
    by (simp only: first fst_conv)
  have c2: "fst (wrapper plain_trace [OSError] ''flaky.log'' ''fallback'' flaky ()
          (snd (wrapper plain_trace [OSError] ''flaky.log'' ''fallback'' flaky () fresh_world)))
     = Returns (PyStr ''FileNotFoundError: [Errno 2] No such file or directory'')"
    using again by (simp only: shown)
  have c3: "Returns (PyStr ''FileNotFoundError: [Errno 2] No such file or directory'')
      \<noteq> (Returns (PyStr ''fallback'') :: pyval outcome)"
    by simp
  from c1 c2 c3 show ?thesis by (simp only: simp_thms)
qed

text \<open>
  C10. \<^verbatim>\<open>exception_handler_decorator\<close> has no check on \<^verbatim>\<open>exceptions\<close>: for the empty
  tuple it builds a guard like for any other. That guard matches nothing: whatever the
  callable raises, the guard raises, and it behaves as the callable on every input.
\<close>

theorem empty_tuple_catches_nothing:
  "(func args s = (Raises e, s1) \<longrightarrow>
      exception_handler_decorator tb self [] return_message_arg log_file_arg s0 func args s
        = (Raises e, s1))
   \<and> exception_handler_decorator tb self [] return_message_arg log_file_arg s0 func args s
        = func args s"
  by (auto simp: exception_handler_decorator_def wrapper_def except_matches_def Let_def
      split: prod.splits outcome.splits)

theorem empty_tuple_catches_nothing_witness:
  "exception_handler_decorator plain_trace exc_handler [] None None example_world div_array_body
      (PyList [PyInt 10, PyInt 0]) fresh_world
   = (Raises division_by_zero, fresh_world)"
  using empty_tuple_catches_nothing[of div_array_body "PyList [PyInt 10, PyInt 0]" fresh_world
      division_by_zero fresh_world plain_trace exc_handler None None example_world]
  by (simp add: body_div_zero)

section \<open>Further properties\<close>

text \<open>
  When no guard of a stack matches the exception, the stack raises it as the callable
  raised it, and no log file is written.
\<close>

theorem unclaimed_exception_surfaces:
  "func args s = (Raises e, s1) \<Longrightarrow> find (guard_matches e) gs = None \<Longrightarrow>
   chain tb gs func args s = (Raises e, s1)"
proof (induction gs arbitrary: func)
  case Nil
  then show ?case by simp
next
  case (Cons h gs)
  from Cons.prems(2) have "\<not> guard_matches e h"
    and rest: "find (guard_matches e) gs = None"
    by (simp_all split: if_splits)
  then have nm: "\<not> except_matches e (guard_exceptions h)"
    by (simp add: guard_matches_def)
  from Cons.prems(1) nm
  have "wrapper tb (guard_exceptions h) (guard_log_file h) (guard_return_message h) func args s
          = (Raises e, s1)"
    by (rule wrapper_unmatched)
  with rest show ?case using Cons.IH by simp
qed

theorem unclaimed_exception_surfaces_witness:
  "chain plain_trace [zero_division_guard] div_array_body (PyInt 1) fresh_world
     = (Raises not_iterable, fresh_world)"
  using unclaimed_exception_surfaces[of div_array_body "PyInt 1" fresh_world not_iterable
      fresh_world "[zero_division_guard]" plain_trace]
  by (simp add: body_not_iterable)

text \<open>
  The demonstration's \<^verbatim>\<open>div_array(["1", 2])\<close>: dividing a string raises a \<^verbatim>\<open>TypeError\<close>,
  the middle guard returns its message, and the trace in \<^verbatim>\<open>typeerror.txt\<close> names
  \<^verbatim>\<open>TypeError\<close>.
\<close>

theorem string_operand_is_a_type_error:
  "open_fault w ''typeerror.txt'' = None \<Longrightarrow> write_fault w ''typeerror.txt'' = None \<Longrightarrow>
   div_array tb (PyList [PyStr ''1'', PyInt 2]) w
     = (Returns (PyStr ''Type Error ocurred! Please check the data types and try again.''),
        w\<lparr>files := (files w)(''typeerror.txt'' \<mapsto> tb str_over_int)\<rparr>)"
proof -
  assume w: "open_fault w ''typeerror.txt'' = None" "write_fault w ''typeerror.txt'' = None"
  have "find (guard_matches str_over_int)
          [zero_division_guard, type_error_guard, default_guard] = Some type_error_guard"
    by (simp add: guard_matches_def zero_division_guard_def type_error_guard_def
        except_matches_def str_over_int_def class_defs)
  with w have "chain tb [zero_division_guard, type_error_guard, default_guard] div_array_body
      (PyList [PyStr ''1'', PyInt 2]) w
      = (Returns (PyStr (guard_return_message type_error_guard)),
         w\<lparr>files := (files w)(guard_log_file type_error_guard \<mapsto> tb str_over_int)\<rparr>)"
    by (intro chain_first_match) (simp_all add: body_str_over_int)
  then show ?thesis
    by (simp only: div_array_chain guard_fields)
qed

theorem string_operand_is_a_type_error_witness:
  "div_array plain_trace (PyList [PyStr ''1'', PyInt 2]) fresh_world
     = (Returns (PyStr ''Type Error ocurred! Please check the data types and try again.''),
        fresh_world\<lparr>files := (files fresh_world)(''typeerror.txt'' \<mapsto>
          ''TypeError: unsupported operand type(s) for /: '' @ quoted ''str'' @ '' and ''
            @ quoted ''int'')\<rparr>)"
  using string_operand_is_a_type_error[of fresh_world plain_trace]
  by (simp add: str_over_int_def plain_trace_def TypeError_def)

end
